theory Spec2Isabelle
  imports Complex_Main
begin

section \<open>EcoTrack: telemetry rollups, anomaly scan and forecast\<close>

text \<open>
  A shallow embedding of the computations of \<^verbatim>\<open>dashboard.py\<close> and of the guarded
  geo query of \<^verbatim>\<open>aggregation_queries.py\<close>.

  Numbers: the telemetry values are Python floats. They are modelled as \<^typ>\<open>real\<close>, so
  every statement below is about the arithmetic the code asks for, before IEEE rounding.
  The one float value that the code can produce and that is not a number, NaN (the mean
  of an empty column, a rolling mean over too few observations), is kept as a value of its
  own.
\<close>

subsection \<open>Data model\<close>

text \<open>
  A pandas timestamp is modelled by its wall-clock reading: the count of nanoseconds since
  1970-01-01T00:00:00 on the timestamp's own clock (for a timestamp with a UTC offset, the
  local time it shows; for a naive one, the \<^verbatim>\<open>datetime64[ns]\<close> count). The code reads a
  timestamp only through \<^verbatim>\<open>.dt.date\<close>, which is the calendar day of that reading. A
  calendar date is a count of days since 1970-01-01.
\<close>

type_synonym datetime = int
type_synonym date = int

text \<open>
  One row of the frame that \<^verbatim>\<open>telemetry_df\<close> returns. The documents have the fields
  \<^verbatim>\<open>timestamp\<close>, \<^verbatim>\<open>asset_id\<close>, \<^verbatim>\<open>value_type\<close> and \<^verbatim>\<open>value\<close> (the function's docstring;
  asset identifiers are integers in \<^verbatim>\<open>generate_dataset.py\<close>). The column \<^verbatim>\<open>ts\<close> is added
  by \<^verbatim>\<open>telemetry_df\<close>: \<^verbatim>\<open>pd.to_datetime\<close> of the timestamp, with \<^verbatim>\<open>errors="coerce"\<close> on
  failure and \<^verbatim>\<open>pd.NaT\<close> when the column is missing, so a row's \<^verbatim>\<open>ts\<close> is either a
  timestamp or NaT (\<open>None\<close>).
\<close>

record reading =
  timestamp :: string
  asset_id :: int
  value_type :: string
  val :: real
  ts :: "datetime option"

type_synonym dataframe = "reading list"

datatype pyfloat = Num real | NaN

definition electricity_kWh :: string where
  "electricity_kWh = ''electricity_kWh''"

text \<open>The row filter \<^verbatim>\<open>df[df["value_type"] == "electricity_kWh"]\<close>.\<close>

definition electricity :: "dataframe \<Rightarrow> dataframe" where
  "electricity df = filter (\<lambda>r. value_type r = electricity_kWh) df"

subsection \<open>pandas primitives\<close>

text \<open>\<^verbatim>\<open>Series.sum()\<close>: the sum of the column, 0 for an empty one.\<close>

definition pd_sum :: "real list \<Rightarrow> real" where
  "pd_sum xs = foldl (+) 0 xs"

text \<open>\<^verbatim>\<open>Series.mean()\<close>: NaN for an empty column.\<close>

definition pd_mean :: "real list \<Rightarrow> pyfloat" where
  "pd_mean xs = (if xs = [] then NaN else Num (pd_sum xs / real (length xs)))"

text \<open>
  \<^verbatim>\<open>groupby(key)\<close>: the groups in ascending order of their key, each with its rows in
  frame order; rows whose key is missing (NaN, NaT) belong to no group (\<^verbatim>\<open>dropna=True\<close>,
  the default).
\<close>

definition groupby :: "('r \<Rightarrow> 'k::linorder option) \<Rightarrow> 'r list \<Rightarrow> ('k \<times> 'r list) list" where
  "groupby key rows =
     map (\<lambda>k. (k, filter (\<lambda>r. key r = Some k) rows))
       (sort (remdups (List.map_filter key rows)))"

text \<open>\<^verbatim>\<open>groupby(key)["value"].sum().reset_index()\<close>: one row per group.\<close>

definition groupby_sum :: "('r \<Rightarrow> 'k::linorder option) \<Rightarrow> ('r \<Rightarrow> real) \<Rightarrow> 'r list \<Rightarrow> ('k \<times> real) list" where
  "groupby_sum key v rows = map (\<lambda>(k, g). (k, pd_sum (map v g))) (groupby key rows)"

subsection \<open>Rollups (\<^verbatim>\<open>dashboard.py\<close>)\<close>

definition calc_total_kwh :: "dataframe \<Rightarrow> real" where
  "calc_total_kwh df = (if df = [] then 0 else pd_sum (map val (electricity df)))"

text \<open>\<^verbatim>\<open>calc_emissions_kg(total_kwh, factor=0.82)\<close>.\<close>

definition factor_default :: real where
  "factor_default = 0.82"

definition calc_emissions_kg :: "real \<Rightarrow> real \<Rightarrow> real" where
  "calc_emissions_kg total_kwh factor = total_kwh * factor"

text \<open>The dashboard's call \<^verbatim>\<open>emissions = calc_emissions_kg(total_kwh)\<close>.\<close>

definition emissions :: "real \<Rightarrow> real" where
  "emissions total_kwh = calc_emissions_kg total_kwh factor_default"

text \<open>
  The KPI \<^verbatim>\<open>avg_kwh\<close>: 0.0, replaced by the mean of the electricity values when the
  frame (before the filter) is not empty.
\<close>

definition avg_kwh :: "dataframe \<Rightarrow> pyfloat" where
  "avg_kwh df = (if df \<noteq> [] then pd_mean (map val (electricity df)) else Num 0)"

text \<open>\<^verbatim>\<open>Series.dt.date\<close> and \<^verbatim>\<open>pd.to_datetime\<close> of a date (midnight of that day).\<close>

definition ns_per_day :: int where
  "ns_per_day = 86400000000000"

definition dt_date :: "datetime \<Rightarrow> date" where
  "dt_date t = t div ns_per_day"

definition to_datetime :: "date \<Rightarrow> datetime" where
  "to_datetime d = d * ns_per_day"

text \<open>
  \<^verbatim>\<open>sort_values(col)\<close>, ascending, and \<^verbatim>\<open>sort_values(col, ascending=False)\<close>. For a
  descending sort pandas reverses the rows, sorts ascending and reverses the result
  (\<^verbatim>\<open>nargsort\<close>). The order of rows with equal keys depends on the sorting algorithm
  (\<^verbatim>\<open>quicksort\<close> by default, which promises none); the model sorts by insertion, and
  no statement below depends on the order of ties.
\<close>

definition sort_values :: "('r \<Rightarrow> 'k::linorder) \<Rightarrow> 'r list \<Rightarrow> 'r list" where
  "sort_values col rows = sort_key col rows"

definition sort_values_desc :: "('r \<Rightarrow> 'k::linorder) \<Rightarrow> 'r list \<Rightarrow> 'r list" where
  "sort_values_desc col rows = rev (sort_key col (rev rows))"

text \<open>\<^verbatim>\<open>daily_aggregates\<close>: rows \<open>(date, daily_kWh)\<close>.\<close>

definition daily_aggregates :: "dataframe \<Rightarrow> (datetime \<times> real) list" where
  "daily_aggregates df =
     (if df = [] then []
      else let d = electricity df;
               agg = groupby_sum (\<lambda>r. map_option dt_date (ts r)) val d;
               agg' = map (\<lambda>(day, kwh). (to_datetime day, kwh)) agg
           in sort_values fst agg')"

text \<open>\<^verbatim>\<open>asset_aggregates\<close>: rows \<open>(asset_id, total_kWh)\<close>.\<close>

definition asset_aggregates :: "dataframe \<Rightarrow> (int \<times> real) list" where
  "asset_aggregates df =
     (if df = [] then []
      else let d = electricity df;
               agg = groupby_sum (\<lambda>r. Some (asset_id r)) val d
           in sort_values_desc snd agg)"

subsection \<open>Anomaly scan (\<^verbatim>\<open>dashboard.py\<close>, lines 217 to 241)\<close>

text \<open>
  \<^verbatim>\<open>ndarray.mean()\<close> and \<^verbatim>\<open>ndarray.std(ddof=0)\<close>, the square root of the mean squared
  deviation from the mean. The scan calls them on arrays of at least two values only.
\<close>

definition np_mean :: "real list \<Rightarrow> real" where
  "np_mean arr = sum_list arr / real (length arr)"

definition np_std :: "real list \<Rightarrow> real" where
  "np_std arr = sqrt (np_mean (map (\<lambda>x. (x - np_mean arr)\<^sup>2) arr))"

record anomaly =
  a_asset_id :: int
  a_timestamp :: string
  a_value :: real
  a_z :: real

text \<open>
  The body of the loop \<^verbatim>\<open>for aid, g in grouped\<close>: the records that one group appends.
\<close>

definition group_anomalies :: "int \<Rightarrow> reading list \<Rightarrow> anomaly list" where
  "group_anomalies aid g =
     (let arr = map val g
      in if length arr < 2 then []
         else let mean = np_mean arr;
                  std = (if np_std arr > 0 then np_std arr else 1)
              in map (\<lambda>r. \<lparr>a_asset_id = aid, a_timestamp = timestamp r, a_value = val r,
                            a_z = (val r - mean) / std\<rparr>)
                   (filter (\<lambda>r. (val r - mean) / std > 2.5) g))"

fun anomaly_loop :: "(int \<times> reading list) list \<Rightarrow> anomaly list \<Rightarrow> anomaly list" where
  "anomaly_loop [] anomaly_records = anomaly_records"
| "anomaly_loop ((aid, g) # grouped) anomaly_records =
     anomaly_loop grouped (anomaly_records @ group_anomalies aid g)"

text \<open>The list \<^verbatim>\<open>anomaly_records\<close> that the loop builds from the filtered frame.\<close>

definition anomaly_records :: "dataframe \<Rightarrow> anomaly list" where
  "anomaly_records z_df = anomaly_loop (groupby (\<lambda>r. Some (asset_id r)) z_df) []"

datatype anomaly_panel = No_data | No_electricity_data | Table "anomaly list" | No_strong_anomalies

definition anomaly_panel :: "dataframe \<Rightarrow> anomaly_panel" where
  "anomaly_panel df =
     (if df = [] then No_data
      else let z_df = electricity df
           in if z_df = [] then No_electricity_data
              else let recs = anomaly_records z_df
                   in if recs \<noteq> [] then Table recs else No_strong_anomalies)"

subsection \<open>Forecast (\<^verbatim>\<open>dashboard.py\<close>)\<close>

text \<open>A series: the values with their index, in index order.\<close>

type_synonym 'v series = "(datetime \<times> 'v) list"

text \<open>
  \<^verbatim>\<open>rolling(window, min_periods).mean()\<close>: at each position the mean of the last
  \<open>window\<close> values up to it, NaN when there are fewer than \<open>min_periods\<close> of them.
\<close>

definition rolling_mean :: "nat \<Rightarrow> nat \<Rightarrow> real list \<Rightarrow> pyfloat list" where
  "rolling_mean window min_periods xs =
     map (\<lambda>i. let w = drop (Suc i - window) (take (Suc i) xs)
               in if length w < min_periods then NaN else pd_mean w)
       [0..<length xs]"

text \<open>\<^verbatim>\<open>pd.date_range(start, periods)\<close>, daily.\<close>

definition date_range :: "datetime \<Rightarrow> nat \<Rightarrow> datetime list" where
  "date_range start periods = map (\<lambda>k. start + int k * ns_per_day) [0..<periods]"

text \<open>
  The horizon \<^verbatim>\<open>days_out\<close> is a count of days (the dashboard's number input allows 1 to
  90), a \<^typ>\<open>nat\<close>.
\<close>

definition simple_moving_average_forecast :: "real series \<Rightarrow> nat \<Rightarrow> nat \<Rightarrow> pyfloat series" where
  "simple_moving_average_forecast series days_out window =
     (if series = [] then []
      else let ma = rolling_mean window 1 (map snd series);
               lst = last ma;
               future_idx = date_range (fst (last series) + ns_per_day) days_out
           in zip future_idx (replicate days_out lst))"

text \<open>
  The optional import (lines 13 to 17), which succeeds or raises:
  \<^verbatim>\<open>PROPHET_AVAILABLE\<close> is whether it succeeded. The sidebar (lines 164 to 168)
  offers the checkbox only when it did.
\<close>

definition PROPHET_AVAILABLE :: "'e + unit \<Rightarrow> bool" where
  "PROPHET_AVAILABLE import_result = (case import_result of Inr _ \<Rightarrow> True | Inl _ \<Rightarrow> False)"

definition use_prophet :: "bool \<Rightarrow> bool \<Rightarrow> bool" where
  "use_prophet available checkbox = (if available then checkbox else False)"

text \<open>
  \<^verbatim>\<open>prophet_forecast\<close>: raises when the library is absent, and otherwise is whatever the
  library does (\<open>lib\<close>: it returns a forecast or raises).
\<close>

datatype 'e prophet_error = RuntimeError string | Library_error 'e

definition prophet_forecast ::
  "bool \<Rightarrow> (real series \<Rightarrow> nat \<Rightarrow> 'e + real series) \<Rightarrow> real series \<Rightarrow> nat \<Rightarrow> 'e prophet_error + real series" where
  "prophet_forecast available lib series days_out =
     (if \<not> available then Inl (RuntimeError ''Prophet not available'')
      else case lib series days_out of Inl e \<Rightarrow> Inl (Library_error e) | Inr f \<Rightarrow> Inr f)"

text \<open>The forecast panel (lines 244 to 279): what it shows.\<close>

datatype 'e forecast_panel =
    No_daily_series
  | Prophet_plot "real series"
  | Prophet_error "'e prophet_error"
  | MA_plot "pyfloat series"

definition forecast_panel ::
  "bool \<Rightarrow> bool \<Rightarrow> (real series \<Rightarrow> nat \<Rightarrow> 'e + real series) \<Rightarrow> real series \<Rightarrow> nat \<Rightarrow> 'e forecast_panel" where
  "forecast_panel available checkbox lib daily days_out =
     (if daily = [] then No_daily_series
      else let series = sort_values fst daily
           in if available \<and> use_prophet available checkbox
              then (case prophet_forecast available lib series days_out of
                      Inr forecast_series \<Rightarrow> Prophet_plot forecast_series
                    | Inl e \<Rightarrow> Prophet_error e)
              else MA_plot (simple_moving_average_forecast series days_out 3))"

subsection \<open>The query script (\<^verbatim>\<open>aggregation_queries.py\<close>)\<close>

text \<open>
  The script runs seven aggregation pipelines in order against the store and prints each
  result. The store is outside the repository: \<open>db\<close> gives, for each pipeline, the list
  of documents it returns or the exception it raises. Only the last query, the
  \<^verbatim>\<open>$geoNear\<close> one, runs inside \<^verbatim>\<open>try\<close>/\<^verbatim>\<open>except Exception\<close>.
\<close>

datatype pipeline =
    pipeline_total | pipeline_asset | pipeline_avg | pipeline_daily
  | pipeline_spike | pipeline_emission | pipeline_geo

datatype ('e, 'r) printed = Heading pipeline | Result 'r | Message string | Error_line 'e

text \<open>
  The six unguarded queries: the heading is printed, then the query runs; an exception
  ends the script (\<open>Inl\<close>, with what was printed so far).
\<close>

fun run_queries ::
  "(pipeline \<Rightarrow> 'e + 'r) \<Rightarrow> pipeline list \<Rightarrow> ('e, 'r) printed list \<Rightarrow> 'e \<times> ('e, 'r) printed list + ('e, 'r) printed list" where
  "run_queries db [] out = Inr out"
| "run_queries db (p # ps) out =
     (case db p of
        Inl e \<Rightarrow> Inl (e, out @ [Heading p])
      | Inr result \<Rightarrow> run_queries db ps (out @ [Heading p, Result result]))"

definition result_geo :: "(pipeline \<Rightarrow> 'e + 'r) \<Rightarrow> ('e, 'r) printed list \<Rightarrow> ('e, 'r) printed list" where
  "result_geo db out =
     (case db pipeline_geo of
        Inr result \<Rightarrow> out @ [Heading pipeline_geo, Result result]
      | Inl e \<Rightarrow> out @ [Heading pipeline_geo, Message ''GeoNear requires 2dsphere index!'', Error_line e])"

definition aggregation_queries ::
  "(pipeline \<Rightarrow> 'e + 'r) \<Rightarrow> 'e \<times> ('e, 'r) printed list + ('e, 'r) printed list" where
  "aggregation_queries db =
     (case run_queries db
             [pipeline_total, pipeline_asset, pipeline_avg, pipeline_daily,
              pipeline_spike, pipeline_emission] [] of
        Inl failure \<Rightarrow> Inl failure
      | Inr out \<Rightarrow> Inr (result_geo db out))"

subsection \<open>Derived notions of the anomaly scan\<close>

text \<open>
  The z-score that the scan computes for a value within an array: the deviation from the
  mean divided by \<^verbatim>\<open>std\<close>, the standard deviation or 1.0 when that is not positive.
\<close>

definition zscore :: "real list \<Rightarrow> real \<Rightarrow> real" where
  "zscore arr v = (v - np_mean arr) / (if np_std arr > 0 then np_std arr else 1)"

text \<open>The values of one asset's readings, and the record the scan writes for a reading.\<close>

definition asset_values :: "dataframe \<Rightarrow> int \<Rightarrow> real list" where
  "asset_values z_df aid = map val (filter (\<lambda>q. asset_id q = aid) z_df)"

definition flag :: "dataframe \<Rightarrow> reading \<Rightarrow> anomaly" where
  "flag z_df r = \<lparr>a_asset_id = asset_id r, a_timestamp = timestamp r, a_value = val r,
                   a_z = zscore (asset_values z_df (asset_id r)) (val r)\<rparr>"

definition flagged :: "dataframe \<Rightarrow> reading \<Rightarrow> bool" where
  "flagged z_df r \<longleftrightarrow>
     2 \<le> length (asset_values z_df (asset_id r))
     \<and> zscore (asset_values z_df (asset_id r)) (val r) > 2.5"

text \<open>
  The specification's wording, to compare the scan with: mean, population standard
  deviation, and the z-score with 1.0 substituted for a zero standard deviation.
\<close>

definition spec_mean :: "real list \<Rightarrow> real" where
  "spec_mean vs = sum_list vs / real (length vs)"

definition spec_stddev :: "real list \<Rightarrow> real" where
  "spec_stddev vs = sqrt ((\<Sum>v\<leftarrow>vs. (v - spec_mean vs)\<^sup>2) / real (length vs))"

definition spec_zscore :: "real list \<Rightarrow> real \<Rightarrow> real" where
  "spec_zscore vs v = (v - spec_mean vs) / (if spec_stddev vs = 0 then 1 else spec_stddev vs)"

subsection \<open>Derived notions of the per-day rollup\<close>

text \<open>
  The calendar day of a reading (none when its \<^verbatim>\<open>ts\<close> is NaT), the electricity readings
  of a day in frame order, and the days on which an electricity reading falls.
\<close>

definition reading_day :: "reading \<Rightarrow> date option" where
  "reading_day r = map_option dt_date (ts r)"

definition day_readings :: "dataframe \<Rightarrow> date \<Rightarrow> reading list" where
  "day_readings df d =
     filter (\<lambda>r. value_type r = electricity_kWh \<and> reading_day r = Some d) df"

definition electricity_days :: "dataframe \<Rightarrow> date set" where
  "electricity_days df =
     {d. \<exists>r\<in>set df. value_type r = electricity_kWh \<and> reading_day r = Some d}"

subsection \<open>Example frames\<close>

text \<open>Three electricity readings on two days and a reading of another kind.\<close>

definition two_days :: dataframe where
  "two_days =
     [\<lparr>timestamp = ''2024-01-01T00:00:00'', asset_id = 101, value_type = ''electricity_kWh'',
        val = 5, ts = Some 1704067200000000000\<rparr>,
      \<lparr>timestamp = ''2024-01-01T01:00:00'', asset_id = 102, value_type = ''electricity_kWh'',
        val = 7, ts = Some 1704070800000000000\<rparr>,
      \<lparr>timestamp = ''2024-01-02T00:00:00'', asset_id = 101, value_type = ''electricity_kWh'',
        val = 4, ts = Some 1704153600000000000\<rparr>,
      \<lparr>timestamp = ''2024-01-02T00:00:00'', asset_id = 103, value_type = ''water_L'',
        val = 9, ts = Some 1704153600000000000\<rparr>]"

text \<open>A frame with no electricity reading.\<close>

definition water_only :: dataframe where
  "water_only =
     [\<lparr>timestamp = ''2024-01-02T00:00:00'', asset_id = 103, value_type = ''water_L'',
        val = 9, ts = Some 1704153600000000000\<rparr>]"

text \<open>
  An electricity reading whose timestamp string lies within a date range that covers
  2024-01-01 and 2024-01-02 but is not a valid time (hour 25): \<^verbatim>\<open>pd.to_datetime\<close> raises
  on it, the call with \<^verbatim>\<open>errors="coerce"\<close> gives NaT.
\<close>

definition unparsed_timestamp :: dataframe where
  "unparsed_timestamp =
     [\<lparr>timestamp = ''2024-01-01T25:00:00'', asset_id = 101, value_type = ''electricity_kWh'',
        val = 5, ts = None\<rparr>]"

text \<open>Electricity readings of one asset with the given values, one per hour.\<close>

definition one_asset :: "int \<Rightarrow> real list \<Rightarrow> dataframe" where
  "one_asset aid vs =
     map (\<lambda>(k, v). \<lparr>timestamp = ''2024-01-01'', asset_id = aid, value_type = electricity_kWh,
                     val = v, ts = Some (1704067200000000000 + int k * 3600000000000)\<rparr>)
       (enumerate 0 vs)"

text \<open>A store whose provider collection has no geo index: the \<^verbatim>\<open>$geoNear\<close> query raises.\<close>

definition store_without_index :: "pipeline \<Rightarrow> string + nat" where
  "store_without_index p = (if p = pipeline_geo then Inl ''no geo index'' else Inr 0)"

section \<open>Properties\<close>

subsection \<open>Sums\<close>

lemma foldl_add_sum_list: "foldl (+) a xs = a + sum_list (xs :: real list)"
  by (induction xs arbitrary: a) (simp_all add: add.assoc)

lemma pd_sum_sum_list: "pd_sum xs = sum_list xs"
  by (simp add: pd_sum_def foldl_add_sum_list)

lemma sum_list_filter_index:
  "sum_list (map f (filter P xs)) = (\<Sum>i | i < length xs \<and> P (xs ! i). (f (xs ! i) :: real))"
proof (induction xs rule: rev_induct)
  case Nil
  then show ?case by simp
next
  case (snoc x xs)
  let ?n = "length xs"
  let ?A = "{i. i < ?n \<and> P (xs ! i)}"
  have old: "(\<Sum>i\<in>?A. f ((xs @ [x]) ! i)) = (\<Sum>i\<in>?A. f (xs ! i))"
    by (rule sum.cong) (simp_all add: nth_append)
  have split: "{i. i < length (xs @ [x]) \<and> P ((xs @ [x]) ! i)} = ?A \<union> (if P x then {?n} else {})"
    by (auto simp: nth_append less_Suc_eq)
  have fin: "finite ?A" by simp
  show ?case
  proof (cases "P x")
    case True
    have "(\<Sum>i\<in>?A \<union> {?n}. f ((xs @ [x]) ! i)) = (\<Sum>i\<in>?A. f ((xs @ [x]) ! i)) + f x"
      using fin by (subst sum.union_disjoint) simp_all
    with True snoc old split show ?thesis by simp
  next
    case False
    with snoc old split show ?thesis by simp
  qed
qed

subsection \<open>Grouping\<close>

lemma set_group_keys:
  "set (sort (remdups (List.map_filter key rows))) = {k. \<exists>r\<in>set rows. key r = Some k}"
proof -
  have "set (List.map_filter key rows) = {k. \<exists>r\<in>set rows. key r = Some k}"
    unfolding map_filter_def by force
  then show ?thesis by simp
qed

lemma distinct_group_keys: "distinct (sort (remdups (List.map_filter key rows)))"
  by simp

lemma map_fst_groupby_sum:
  "map fst (groupby_sum key v rows) = sort (remdups (List.map_filter key rows))"
  by (simp add: groupby_sum_def groupby_def comp_def)

subsection \<open>Total, emissions and mean\<close>

text \<open>
  Claim C3. For every frame of readings, \<^verbatim>\<open>calc_total_kwh\<close> is the sum of the values of
  exactly the readings tagged \<^verbatim>\<open>electricity_kWh\<close> (the sum over their positions in the
  frame), and it is 0 for an empty frame and for a frame with no such reading.
\<close>

theorem calc_total_kwh_sum:
  "calc_total_kwh df
     = (\<Sum>i | i < length df \<and> value_type (df ! i) = electricity_kWh. val (df ! i))
   \<and> (df = [] \<longrightarrow> calc_total_kwh df = 0)
   \<and> ((\<forall>r\<in>set df. value_type r \<noteq> electricity_kWh) \<longrightarrow> calc_total_kwh df = 0)"
proof (intro conjI impI)
  show "calc_total_kwh df
          = (\<Sum>i | i < length df \<and> value_type (df ! i) = electricity_kWh. val (df ! i))"
    by (simp add: calc_total_kwh_def electricity_def pd_sum_sum_list sum_list_filter_index)
  show "calc_total_kwh df = 0" if "df = []"
    using that by (simp add: calc_total_kwh_def)
  show "calc_total_kwh df = 0" if "\<forall>r\<in>set df. value_type r \<noteq> electricity_kWh"
  proof -
    from that have "electricity df = []"
      by (simp add: electricity_def filter_empty_conv)
    then show ?thesis by (simp add: calc_total_kwh_def pd_sum_def)
  qed
qed

theorem calc_total_kwh_sum_witness:
  "calc_total_kwh two_days = 16 \<and> calc_total_kwh [] = 0
   \<and> electricity water_only = [] \<and> calc_total_kwh water_only = 0"
proof -
  have none: "\<forall>r\<in>set water_only. value_type r \<noteq> electricity_kWh"
    by (simp add: water_only_def electricity_kWh_def)
  have "calc_total_kwh two_days = 16"
    by (simp add: calc_total_kwh_def two_days_def electricity_def electricity_kWh_def pd_sum_def)
  moreover have "electricity water_only = []"
    using none by (simp add: electricity_def filter_empty_conv)
  ultimately show ?thesis
    using none calc_total_kwh_sum [of "[]"] calc_total_kwh_sum [of water_only] by simp
qed

text \<open>
  Claim C5. For every total, the emission computed with the default factor is the
  total times 0.82; a total of 100.0 gives 82.0. The function is a total function of its
  arguments: it reads no state and has no error result.
\<close>

theorem emissions_exact:
  "emissions total_kwh = total_kwh * 0.82 \<and> emissions 100.0 = 82.0"
  by (simp add: emissions_def calc_emissions_kg_def factor_default_def)

theorem emissions_exact_witness: "emissions 250 = 205"
  using emissions_exact [of 250] by simp

text \<open>
  Claim C2. The mean reading is meant to be the total divided by the number of electricity
  readings, and zero when there is none. The code guards the empty frame only: on a
  frame that is not empty and holds no electricity reading, the count is zero and
  \<^verbatim>\<open>avg_kwh\<close> is the mean of an empty column, NaN, not zero.
\<close>

theorem avg_kwh_no_electricity:
  "length (electricity water_only) = 0 \<and> avg_kwh water_only = NaN \<and> avg_kwh water_only \<noteq> Num 0"
  by (simp add: avg_kwh_def water_only_def electricity_def electricity_kWh_def pd_mean_def)

text \<open>Where there is an electricity reading, and on the empty frame, the mean is as claimed.\<close>

lemma avg_kwh_mean:
  "electricity df \<noteq> [] \<Longrightarrow> avg_kwh df = Num (calc_total_kwh df / real (length (electricity df)))"
  "avg_kwh [] = Num 0"
  by (auto simp: avg_kwh_def calc_total_kwh_def pd_mean_def electricity_def)

subsection \<open>Per-day rollup\<close>

lemma group_keys_sorted_list:
  "sort (remdups (List.map_filter key rows)) = sorted_list_of_set {k. \<exists>r\<in>set rows. key r = Some k}"
proof -
  have "set (List.map_filter key rows) = {k. \<exists>r\<in>set rows. key r = Some k}"
    unfolding map_filter_def by force
  then show ?thesis
    by (simp add: sorted_list_of_set_sort_remdups [symmetric])
qed

lemma groupby_sum_rows:
  "groupby_sum key v rows
   = map (\<lambda>k. (k, sum_list (map v (filter (\<lambda>r. key r = Some k) rows))))
       (sorted_list_of_set {k. \<exists>r\<in>set rows. key r = Some k})"
  by (simp add: groupby_sum_def groupby_def pd_sum_sum_list comp_def group_keys_sorted_list)

lemma count_list_filter:
  "count_list (filter P xs) r = (if P r then count_list xs r else 0)"
  by (induction xs) auto

lemma count_list_concat_groups:
  "distinct ks \<Longrightarrow>
   count_list (concat (map (\<lambda>k. filter (\<lambda>r. key r = Some k) rows) ks)) r
   = (if \<exists>k\<in>set ks. key r = Some k then count_list rows r else 0)"
  by (induction ks) (auto simp: count_list_filter)

lemma to_datetime_mono: "d \<le> d' \<Longrightarrow> to_datetime d \<le> to_datetime d'"
  by (simp add: to_datetime_def ns_per_day_def)

lemma to_datetime_inj: "inj to_datetime"
  by (rule injI) (simp add: to_datetime_def ns_per_day_def)

lemma sorted_map_to_datetime: "sorted ds \<Longrightarrow> sorted (map to_datetime ds)"
  by (induction ds) (auto simp: to_datetime_mono)

lemma electricity_day_rows:
  "filter (\<lambda>r. reading_day r = Some d) (electricity df) = day_readings df d"
  by (simp add: electricity_def day_readings_def)

lemma electricity_day_set:
  "{d. \<exists>r\<in>set (electricity df). reading_day r = Some d} = electricity_days df"
  by (auto simp: electricity_def electricity_days_def)

lemma finite_electricity_days: "finite (electricity_days df)"
proof -
  have "electricity_days df = set (List.map_filter reading_day (electricity df))"
    unfolding map_filter_def electricity_days_def electricity_def by force
  then show ?thesis by simp
qed

lemma daily_aggregates_rows:
  "daily_aggregates df
   = map (\<lambda>d. (to_datetime d, sum_list (map val (day_readings df d))))
       (sorted_list_of_set (electricity_days df))"
proof (cases "df = []")
  case True
  then show ?thesis by (simp add: daily_aggregates_def electricity_days_def)
next
  case False
  let ?days = "sorted_list_of_set (electricity_days df)"
  let ?rows = "map (\<lambda>d. (to_datetime d, sum_list (map val (day_readings df d)))) ?days"
  have agg: "groupby_sum (\<lambda>r. map_option dt_date (ts r)) val (electricity df)
        = map (\<lambda>d. (d, sum_list (map val (day_readings df d)))) ?days"
    using groupby_sum_rows [of reading_day val "electricity df"]
    unfolding electricity_day_rows electricity_day_set by (simp add: reading_day_def [abs_def])
  have "map fst ?rows = map to_datetime ?days" by (simp add: comp_def)
  moreover have "sorted (map to_datetime ?days)" by (simp add: sorted_map_to_datetime)
  ultimately have "sorted (map fst ?rows)" by (simp only:)
  then have "sort_key fst ?rows = ?rows" by (rule sort_key_id_if_sorted)
  with False agg show ?thesis
    by (simp add: daily_aggregates_def sort_values_def comp_def)
qed

text \<open>
  Claim C4, as stated: the per-day values of \<^verbatim>\<open>daily_aggregates\<close> add up to
  \<^verbatim>\<open>calc_total_kwh\<close> of the same frame. It fails on a frame with an electricity reading
  whose \<^verbatim>\<open>ts\<close> is NaT: \<^verbatim>\<open>groupby("date")\<close> leaves the row out, so there is no per-day
  row at all, and the total counts the reading.
\<close>

theorem daily_aggregates_sum_counterexample:
  "daily_aggregates unparsed_timestamp = []
   \<and> calc_total_kwh unparsed_timestamp = 5
   \<and> sum_list (map snd (daily_aggregates unparsed_timestamp)) \<noteq> calc_total_kwh unparsed_timestamp"
  by (simp add: unparsed_timestamp_def daily_aggregates_def calc_total_kwh_def electricity_def
      electricity_kWh_def groupby_sum_def groupby_def map_filter_def sort_values_def pd_sum_def)

text \<open>
  Claim C4, amended. For every frame, \<^verbatim>\<open>daily_aggregates\<close> has one row per calendar day on
  which an electricity reading with a parsed timestamp falls, in ascending order of the
  day, and the row's value is the sum of the values of exactly that day's electricity
  readings. So each electricity reading with a parsed timestamp is counted in exactly one
  per-day value and one whose \<^verbatim>\<open>ts\<close> is NaT in none: the readings of the days, taken
  together, are the electricity readings with a parsed timestamp, each as often as it
  occurs in the frame, where \<^verbatim>\<open>calc_total_kwh\<close> sums every electricity reading.
  Nothing is stated about the equality of the summed per-day values with the total: the
  code adds floats, per day and over the whole column in different orders, and the
  results of that are rounded differently.
\<close>

theorem daily_aggregates_days:
  "daily_aggregates df
     = map (\<lambda>d. (to_datetime d, sum_list (map val (day_readings df d))))
         (sorted_list_of_set (electricity_days df))
   \<and> sorted (map fst (daily_aggregates df))
   \<and> distinct (map fst (daily_aggregates df))
   \<and> count_list (concat (map (day_readings df) (sorted_list_of_set (electricity_days df)))) r
     = count_list (filter (\<lambda>r. value_type r = electricity_kWh \<and> ts r \<noteq> None) df) r"
proof (intro conjI)
  let ?days = "sorted_list_of_set (electricity_days df)"
  have fin: "finite (electricity_days df)"
    by (rule finite_electricity_days)
  show rows: "daily_aggregates df
     = map (\<lambda>d. (to_datetime d, sum_list (map val (day_readings df d)))) ?days"
    by (rule daily_aggregates_rows)
  have fst: "map fst (daily_aggregates df) = map to_datetime ?days"
    unfolding rows by (simp add: comp_def)
  show "sorted (map fst (daily_aggregates df))"
    unfolding fst by (simp add: sorted_map_to_datetime)
  show "distinct (map fst (daily_aggregates df))"
    unfolding fst using to_datetime_inj by (simp add: distinct_map inj_on_def inj_def)
  have "count_list (concat (map (\<lambda>d. filter (\<lambda>r. reading_day r = Some d) (electricity df)) ?days)) r
        = (if \<exists>d\<in>set ?days. reading_day r = Some d then count_list (electricity df) r else 0)"
    by (rule count_list_concat_groups) simp
  also have "\<dots> = count_list (filter (\<lambda>r. ts r \<noteq> None) (electricity df)) r"
  proof (cases "r \<in> set (electricity df)")
    case True
    then have "(\<exists>d\<in>set ?days. reading_day r = Some d) \<longleftrightarrow> ts r \<noteq> None"
      using fin by (auto simp: electricity_days_def electricity_def reading_day_def)
    then show ?thesis by (simp add: count_list_filter)
  next
    case False
    then have "count_list (electricity df) r = 0" by (simp add: count_list_0_iff)
    then show ?thesis by (simp add: count_list_filter)
  qed
  finally show "count_list (concat (map (day_readings df) ?days)) r
     = count_list (filter (\<lambda>r. value_type r = electricity_kWh \<and> ts r \<noteq> None) df) r"
    unfolding electricity_day_rows by (simp add: electricity_def)
qed

theorem daily_aggregates_days_witness:
  "daily_aggregates two_days = [(1704067200000000000, 12), (1704153600000000000, 4)]
   \<and> sorted (map fst (daily_aggregates two_days))
   \<and> distinct (map fst (daily_aggregates two_days))"
proof -
  have "daily_aggregates two_days = [(1704067200000000000, 12), (1704153600000000000, 4)]"
    by (simp add: two_days_def daily_aggregates_def electricity_def electricity_kWh_def
        groupby_sum_def groupby_def map_filter_def sort_values_def pd_sum_def dt_date_def
        to_datetime_def ns_per_day_def)
  moreover note days = daily_aggregates_days [of two_days "hd two_days"]
  from days have "sorted (map fst (daily_aggregates two_days))"
    by (elim conjE)
  moreover from days have "distinct (map fst (daily_aggregates two_days))"
    by (elim conjE)
  ultimately show ?thesis by (intro conjI)
qed

subsection \<open>Per-asset rollup\<close>

lemma set_groupby_sum:
  "set (groupby_sum key v rows)
   = {(k, sum_list (map v (filter (\<lambda>r. key r = Some k) rows))) | k. \<exists>r\<in>set rows. key r = Some k}"
proof -
  have "set (groupby_sum key v rows)
        = (\<lambda>k. (k, sum_list (map v (filter (\<lambda>r. key r = Some k) rows)))) ` set (sort (remdups (List.map_filter key rows)))"
    by (simp add: groupby_sum_def groupby_def pd_sum_sum_list comp_def)
  then show ?thesis unfolding set_group_keys by auto
qed

lemma sorted_sort_values_desc: "sorted (rev (map col (sort_values_desc col rows)))"
  by (simp add: sort_values_desc_def rev_map)

lemma set_sort_values_desc: "set (sort_values_desc col rows) = set rows"
  by (simp add: sort_values_desc_def)

lemma distinct_map_sort_key: "distinct (map f (sort_key g xs)) = distinct (map f xs)"
  by (simp add: distinct_map)

text \<open>
  Claim C7. For every frame, the rows of \<^verbatim>\<open>asset_aggregates\<close> are in descending order
  of their summed value, there is one row per asset that has an electricity reading, and
  a row's value is the sum of that asset's electricity values. Nothing is said about the
  order of rows with equal sums.
\<close>

theorem asset_aggregates_descending:
  "sorted (rev (map snd (asset_aggregates df)))
   \<and> distinct (map fst (asset_aggregates df))
   \<and> set (asset_aggregates df)
       = {(a, \<Sum>r\<leftarrow>filter (\<lambda>r. value_type r = electricity_kWh \<and> asset_id r = a) df. val r) | a.
            \<exists>r\<in>set df. value_type r = electricity_kWh \<and> asset_id r = a}"
proof (intro conjI)
  show "sorted (rev (map snd (asset_aggregates df)))"
    by (simp add: asset_aggregates_def sorted_sort_values_desc)
  show "distinct (map fst (asset_aggregates df))"
    using distinct_group_keys [of "\<lambda>r. Some (asset_id r)" "electricity df"]
    by (simp add: asset_aggregates_def sort_values_desc_def distinct_map_sort_key
        map_fst_groupby_sum rev_map [symmetric] del: distinct_sort)
  have "filter (\<lambda>r. asset_id r = a) (electricity df) = filter (\<lambda>r. value_type r = electricity_kWh \<and> asset_id r = a) df" for a
    by (simp add: electricity_def conj_commute)
  then show "set (asset_aggregates df)
       = {(a, \<Sum>r\<leftarrow>filter (\<lambda>r. value_type r = electricity_kWh \<and> asset_id r = a) df. val r) | a.
            \<exists>r\<in>set df. value_type r = electricity_kWh \<and> asset_id r = a}"
    by (auto simp: asset_aggregates_def set_sort_values_desc set_groupby_sum electricity_def)
qed

theorem asset_aggregates_descending_witness:
  "asset_aggregates two_days = [(101, 9), (102, 7)]
   \<and> sorted (rev (map snd (asset_aggregates two_days)))"
proof -
  have "asset_aggregates two_days = [(101, 9), (102, 7)]"
    by (simp add: two_days_def asset_aggregates_def electricity_def electricity_kWh_def
        groupby_sum_def groupby_def map_filter_def sort_values_desc_def pd_sum_def)
  with asset_aggregates_descending [of two_days] show ?thesis by simp
qed

subsection \<open>Anomaly scan\<close>

lemma anomaly_loop_concat:
  "anomaly_loop grouped acc = acc @ concat (map (\<lambda>(aid, g). group_anomalies aid g) grouped)"
  by (induction grouped acc rule: anomaly_loop.induct) simp_all

lemma np_std_nonneg: "0 \<le> np_std arr"
proof -
  have "0 \<le> (\<Sum>x\<leftarrow>arr. (x - np_mean arr)\<^sup>2)"
    by (rule sum_list_nonneg) auto
  then show ?thesis
    by (simp add: np_std_def np_mean_def [of "map _ _"])
qed

lemma np_std_spec: "np_std arr = spec_stddev arr"
  by (simp add: np_std_def np_mean_def spec_stddev_def spec_mean_def)

lemma zscore_spec: "zscore arr v = spec_zscore arr v"
  using np_std_nonneg [of arr]
  by (auto simp: zscore_def spec_zscore_def np_std_spec [symmetric] np_mean_def spec_mean_def)

lemma zscore_below_mean: "v \<le> np_mean arr \<Longrightarrow> zscore arr v \<le> 0"
  by (simp add: zscore_def divide_le_0_iff)

lemma group_anomalies_zscore:
  "group_anomalies aid g =
     (if length g < 2 then []
      else map (\<lambda>r. \<lparr>a_asset_id = aid, a_timestamp = timestamp r, a_value = val r,
                      a_z = zscore (map val g) (val r)\<rparr>)
             (filter (\<lambda>r. zscore (map val g) (val r) > 2.5) g))"
  by (simp add: group_anomalies_def zscore_def Let_def)


lemma set_group_anomalies:
  "set (group_anomalies aid g) =
     (if length g < 2 then {}
      else (\<lambda>r. \<lparr>a_asset_id = aid, a_timestamp = timestamp r, a_value = val r,
                   a_z = zscore (map val g) (val r)\<rparr>) ` {r \<in> set g. zscore (map val g) (val r) > 2.5})"
  by (simp add: group_anomalies_zscore)

lemma in_group_anomalies:
  "a \<in> set (group_anomalies k (filter (\<lambda>q. asset_id q = k) z_df)) \<longleftrightarrow>
     (\<exists>r\<in>set z_df. asset_id r = k \<and> a = flag z_df r \<and> flagged z_df r)"
proof (cases "length (filter (\<lambda>q. asset_id q = k) z_df) < 2")
  case True
  then show ?thesis
    by (auto simp: set_group_anomalies asset_values_def flagged_def)
next
  case False
  then have two: "2 \<le> length (asset_values z_df k)"
    by (simp add: asset_values_def)
  have "a \<in> set (group_anomalies k (filter (\<lambda>q. asset_id q = k) z_df)) \<longleftrightarrow>
        (\<exists>r. (r \<in> set z_df \<and> asset_id r = k) \<and> zscore (asset_values z_df k) (val r) > 2.5
           \<and> a = \<lparr>a_asset_id = k, a_timestamp = timestamp r, a_value = val r,
                   a_z = zscore (asset_values z_df k) (val r)\<rparr>)"
    using False unfolding set_group_anomalies asset_values_def image_iff Bex_def mem_Collect_eq set_filter
    by (simp only: if_False) blast
  also have "\<dots> \<longleftrightarrow> (\<exists>r\<in>set z_df. asset_id r = k \<and> a = flag z_df r \<and> flagged z_df r)"
    unfolding flag_def flagged_def using two by blast
  finally show ?thesis .
qed

lemma set_anomaly_records_groups:
  "set (anomaly_records z_df)
   = (\<Union>k\<in>{k. \<exists>r\<in>set z_df. asset_id r = k}.
        set (group_anomalies k (filter (\<lambda>q. asset_id q = k) z_df)))"
  using set_group_keys [of "\<lambda>r. Some (asset_id r)" z_df]
  by (simp add: anomaly_records_def anomaly_loop_concat groupby_def comp_def)

lemma in_anomaly_records:
  "a \<in> set (anomaly_records z_df) \<longleftrightarrow> (\<exists>r\<in>set z_df. a = flag z_df r \<and> flagged z_df r)"
proof
  assume "a \<in> set (anomaly_records z_df)"
  then obtain k where "a \<in> set (group_anomalies k (filter (\<lambda>q. asset_id q = k) z_df))"
    unfolding set_anomaly_records_groups by blast
  then show "\<exists>r\<in>set z_df. a = flag z_df r \<and> flagged z_df r"
    unfolding in_group_anomalies by blast
next
  assume "\<exists>r\<in>set z_df. a = flag z_df r \<and> flagged z_df r"
  then obtain r where r: "r \<in> set z_df" "a = flag z_df r" "flagged z_df r"
    by blast
  then have "a \<in> set (group_anomalies (asset_id r) (filter (\<lambda>q. asset_id q = asset_id r) z_df))"
    unfolding in_group_anomalies by blast
  with r(1) show "a \<in> set (anomaly_records z_df)"
    unfolding set_anomaly_records_groups by blast
qed

lemma sqrt_256: "sqrt 256 = 16"
  by (rule real_sqrt_unique) simp_all

lemma groupby_one_asset:
  "groupby (\<lambda>r. Some (asset_id r)) (one_asset aid [10, 10, 10, 10, 50])
   = [(aid, one_asset aid [10, 10, 10, 10, 50])]"
  by (simp add: groupby_def one_asset_def map_filter_def)

lemma spike_not_flagged: "anomaly_records (one_asset aid [10, 10, 10, 10, 50]) = []"
  unfolding anomaly_records_def groupby_one_asset
  by (simp add: group_anomalies_def one_asset_def np_mean_def np_std_def sqrt_256)

lemma spike_zscore: "zscore [10, 10, 10, 10, 50] 50 = 2"
  by (simp add: zscore_def np_mean_def np_std_def sqrt_256)

text \<open>
  Claim C1. For every frame of readings the scan groups by asset; it writes a record for
  exactly the readings of an asset with at least two readings whose z-score, the value
  minus the asset's mean divided by the asset's population standard deviation (1.0 when
  that is zero), exceeds 2.5, and the record carries that z-score. Assets with fewer
  than two readings give no record. For one asset with the readings 10, 10, 10, 10, 50
  the z-score of 50 is below 2.5 and nothing is flagged.
\<close>

theorem anomaly_scan_zscore:
  "set (anomaly_records z_df) =
     {\<lparr>a_asset_id = asset_id r, a_timestamp = timestamp r, a_value = val r,
        a_z = spec_zscore (asset_values z_df (asset_id r)) (val r)\<rparr> | r.
      r \<in> set z_df \<and> 2 \<le> length (asset_values z_df (asset_id r))
      \<and> spec_zscore (asset_values z_df (asset_id r)) (val r) > 2.5}
   \<and> spec_zscore [10, 10, 10, 10, 50] 50 < 2.5
   \<and> anomaly_records (one_asset aid [10, 10, 10, 10, 50]) = []"
proof (intro conjI)
  show "set (anomaly_records z_df) =
     {\<lparr>a_asset_id = asset_id r, a_timestamp = timestamp r, a_value = val r,
        a_z = spec_zscore (asset_values z_df (asset_id r)) (val r)\<rparr> | r.
      r \<in> set z_df \<and> 2 \<le> length (asset_values z_df (asset_id r))
      \<and> spec_zscore (asset_values z_df (asset_id r)) (val r) > 2.5}"
    (is "?L = ?R")
  proof -
    have "?R = {flag z_df r | r. r \<in> set z_df \<and> flagged z_df r}"
      unfolding flag_def flagged_def zscore_spec by (simp only: conj_assoc)
    also have "\<dots> = ?L"
      by (rule set_eqI) (unfold in_anomaly_records mem_Collect_eq, blast)
    finally show ?thesis by (rule sym)
  qed
  show "spec_zscore [10, 10, 10, 10, 50] 50 < 2.5"
    unfolding zscore_spec [symmetric] spike_zscore by simp
  show "anomaly_records (one_asset aid [10, 10, 10, 10, 50]) = []"
    by (rule spike_not_flagged)
qed

lemma sqrt_9: "sqrt 9 = 3"
  by (rule real_sqrt_unique) simp_all

lemma groupby_nine_zeros:
  "groupby (\<lambda>r. Some (asset_id r)) (one_asset 101 [0, 0, 0, 0, 0, 0, 0, 0, 0, 10])
   = [(101, one_asset 101 [0, 0, 0, 0, 0, 0, 0, 0, 0, 10])]"
  by (simp add: groupby_def one_asset_def map_filter_def)

lemma upward_spike_flagged:
  "anomaly_records (one_asset 101 [0, 0, 0, 0, 0, 0, 0, 0, 0, 10])
   = [\<lparr>a_asset_id = 101, a_timestamp = ''2024-01-01'', a_value = 10, a_z = 3\<rparr>]"
  unfolding anomaly_records_def groupby_nine_zeros
  by (simp add: group_anomalies_def one_asset_def np_mean_def np_std_def sqrt_9)

theorem anomaly_scan_zscore_witness:
  "anomaly_records (one_asset 101 [0, 0, 0, 0, 0, 0, 0, 0, 0, 10])
     = [\<lparr>a_asset_id = 101, a_timestamp = ''2024-01-01'', a_value = 10, a_z = 3\<rparr>]
   \<and> anomaly_records (one_asset 101 [10, 10, 10, 10, 50]) = []"
  using anomaly_scan_zscore [of "one_asset 101 [0, 0, 0, 0, 0, 0, 0, 0, 0, 10]" 101]
    upward_spike_flagged
  by simp

text \<open>
  Claim C10. The scan is one-sided: a reading whose value is at most the mean of its
  asset's values is never flagged, whatever its distance from the mean, since the
  z-score is compared with 2.5 signed.
\<close>

theorem anomaly_one_sided:
  assumes "r \<in> set z_df"
    and "val r \<le> np_mean (asset_values z_df (asset_id r))"
  shows "\<not> (\<exists>a\<in>set (anomaly_records z_df). a_asset_id a = asset_id r \<and> a_value a = val r)"
proof
  assume "\<exists>a\<in>set (anomaly_records z_df). a_asset_id a = asset_id r \<and> a_value a = val r"
  then obtain a where a: "a \<in> set (anomaly_records z_df)"
    and same: "a_asset_id a = asset_id r" "a_value a = val r"
    by blast
  from a obtain q where rec: "a = flag z_df q" and fl: "flagged z_df q"
    unfolding in_anomaly_records by blast
  from rec same have q: "asset_id q = asset_id r" "val q = val r"
    by (simp_all add: flag_def)
  from fl q have z: "zscore (asset_values z_df (asset_id r)) (val r) > 2.5"
    by (simp add: flagged_def)
  from assms(2) have "zscore (asset_values z_df (asset_id r)) (val r) \<le> 0"
    by (rule zscore_below_mean)
  with z show False by simp
qed

lemma downward_values:
  "asset_values (one_asset 101 [10, 10, 10, 10, 10, 10, 10, 10, 10, 0]) 101
   = [10, 10, 10, 10, 10, 10, 10, 10, 10, 0]"
  by (simp add: asset_values_def one_asset_def)

theorem anomaly_one_sided_witness:
  "last (one_asset 101 [10, 10, 10, 10, 10, 10, 10, 10, 10, 0])
     \<in> set (one_asset 101 [10, 10, 10, 10, 10, 10, 10, 10, 10, 0])
   \<and> val (last (one_asset 101 [10, 10, 10, 10, 10, 10, 10, 10, 10, 0])) = 0
   \<and> zscore (asset_values (one_asset 101 [10, 10, 10, 10, 10, 10, 10, 10, 10, 0]) 101) 0 = - 3
   \<and> \<not> (\<exists>a\<in>set (anomaly_records (one_asset 101 [10, 10, 10, 10, 10, 10, 10, 10, 10, 0])).
          a_asset_id a = 101 \<and> a_value a = 0)"
proof -
  let ?D = "one_asset 101 [10, 10, 10, 10, 10, 10, 10, 10, 10, 0]"
  have r: "last ?D \<in> set ?D" by (simp add: one_asset_def)
  have v: "val (last ?D) = 0" "asset_id (last ?D) = 101" by (simp_all add: one_asset_def)
  have m: "val (last ?D) \<le> np_mean (asset_values ?D (asset_id (last ?D)))"
    unfolding v downward_values by (simp add: np_mean_def)
  have z: "zscore (asset_values ?D 101) 0 = - 3"
    unfolding downward_values by (simp add: zscore_def np_mean_def np_std_def sqrt_9)
  from anomaly_one_sided [OF r m] r v z show ?thesis by simp
qed

subsection \<open>Forecast\<close>

lemma sum_list_drop_take:
  assumes "a \<le> b" "b \<le> length xs"
  shows "sum_list (drop a (take b xs)) = (\<Sum>j = a..<b. (xs ! j :: real))"
proof -
  have "sum_list (drop a (take b xs)) = (\<Sum>i = 0..<b - a. drop a (take b xs) ! i)"
    using assms by (simp add: sum_list_sum_nth min_def)
  also have "\<dots> = (\<Sum>i = 0..<b - a. xs ! (i + a))"
    using assms by (intro sum.cong) (simp_all add: add.commute)
  also have "\<dots> = (\<Sum>j = 0 + a..<(b - a) + a. xs ! j)"
    by (rule sum.shift_bounds_nat_ivl [symmetric])
  finally show ?thesis using assms by simp
qed

lemma rolling_mean_nth:
  assumes "i < length xs"
  shows "rolling_mean 3 1 xs ! i = Num ((\<Sum>j = i - 2..i. xs ! j) / real (min 3 (i + 1)))"
proof -
  define w where "w = drop (Suc i - 3) (take (Suc i) xs)"
  have len: "length w = min 3 (i + 1)"
    using assms unfolding w_def by (simp add: min_def) arith
  have "{i - 2..i} = {Suc i - 3..<Suc i}" by auto
  then have s: "sum_list w = (\<Sum>j = i - 2..i. xs ! j)"
    using assms sum_list_drop_take [of "Suc i - 3" "Suc i" xs] unfolding w_def by simp
  from len have ne: "w \<noteq> []" "\<not> length w < 1" by auto
  have nth: "map f [0..<length xs] ! i = f i" for f :: "nat \<Rightarrow> pyfloat"
    using assms by simp
  have "rolling_mean 3 1 xs ! i = (if length w < 1 then NaN else pd_mean w)"
    unfolding rolling_mean_def nth Let_def w_def ..
  with s len ne show ?thesis by (simp add: pd_mean_def pd_sum_sum_list)
qed

lemma zip_replicate_const: "zip xs (replicate (length xs) c) = map (\<lambda>x. (x, c)) xs"
  by (induction xs) simp_all

lemma forecast_rows:
  assumes "series \<noteq> []"
  shows "simple_moving_average_forecast series days_out window
     = map (\<lambda>k. (fst (last series) + (1 + int k) * ns_per_day,
                  last (rolling_mean window 1 (map snd series)))) [0..<days_out]"
proof -
  have "zip (map f [0..<n]) (replicate n c) = map (\<lambda>k. (f k, c)) [0..<n]"
    for f :: "nat \<Rightarrow> int" and n and c :: pyfloat
    using zip_replicate_const [of "map f [0..<n]" c] by (simp add: comp_def)
  with assms show ?thesis
    by (simp add: simple_moving_average_forecast_def date_range_def Let_def algebra_simps)
qed

lemma last_rolling_mean:
  assumes "xs \<noteq> []"
  shows "last (rolling_mean 3 1 xs)
         = Num ((\<Sum>j = length xs - 3..<length xs. xs ! j) / real (min 3 (length xs)))"
proof -
  have n: "length (rolling_mean 3 1 xs) = length xs" by (simp add: rolling_mean_def)
  with assms have "rolling_mean 3 1 xs \<noteq> []" by (metis length_0_conv)
  from last_conv_nth [OF this] have "last (rolling_mean 3 1 xs) = rolling_mean 3 1 xs ! (length xs - 1)"
    unfolding n .
  also have "\<dots> = Num ((\<Sum>j = (length xs - 1) - 2..length xs - 1. xs ! j) / real (min 3 (length xs - 1 + 1)))"
    using assms by (intro rolling_mean_nth) simp
  also have "{(length xs - 1) - 2..length xs - 1} = {length xs - 3..<length xs}"
    using assms by (cases xs) auto
  finally show ?thesis using assms by (cases xs) simp_all
qed

text \<open>
  Claim C6. For every non-empty daily series and every horizon, the forecast has one
  point per day of the horizon, on the days after the last day of the series, and every
  point has the same value: the last value of the trailing moving average with window 3
  and minimum periods 1 (at each position the mean of the up to three values ending
  there). For the series 4, 6, 5 that value is 5.0, at every point of any horizon.
\<close>

theorem sma_forecast_flat:
  "(series \<noteq> [] \<longrightarrow>
      simple_moving_average_forecast series days_out 3
        = map (\<lambda>k. (fst (last series) + (1 + int k) * ns_per_day,
                     last (rolling_mean 3 1 (map snd series)))) [0..<days_out]
      \<and> map snd (simple_moving_average_forecast series days_out 3)
        = replicate days_out (last (rolling_mean 3 1 (map snd series)))
      \<and> last (rolling_mean 3 1 (map snd series))
        = Num ((\<Sum>j = length series - 3..<length series. snd (series ! j))
                 / real (min 3 (length series)))
      \<and> (\<forall>i<length series. rolling_mean 3 1 (map snd series) ! i
            = Num ((\<Sum>j = i - 2..i. snd (series ! j)) / real (min 3 (i + 1)))))
   \<and> last (rolling_mean 3 1 [4, 6, 5]) = Num 5
   \<and> map snd (simple_moving_average_forecast [(d0, 4), (d1, 6), (d2, 5)] days_out 3)
        = replicate days_out (Num 5)"
proof (intro conjI impI allI)
  assume ne: "series \<noteq> []"
  show rows: "simple_moving_average_forecast series days_out 3
        = map (\<lambda>k. (fst (last series) + (1 + int k) * ns_per_day,
                     last (rolling_mean 3 1 (map snd series)))) [0..<days_out]"
    using ne by (rule forecast_rows)
  show "map snd (simple_moving_average_forecast series days_out 3)
        = replicate days_out (last (rolling_mean 3 1 (map snd series)))"
    unfolding rows by (simp add: comp_def map_replicate_const)
  have "(\<Sum>j = length series - 3..<length series. map snd series ! j)
        = (\<Sum>j = length series - 3..<length series. snd (series ! j))"
    by (intro sum.cong) simp_all
  with ne last_rolling_mean [of "map snd series"]
  show "last (rolling_mean 3 1 (map snd series))
        = Num ((\<Sum>j = length series - 3..<length series. snd (series ! j))
                 / real (min 3 (length series)))"
    by simp
  fix i assume "i < length series"
  then have "rolling_mean 3 1 (map snd series) ! i
       = Num ((\<Sum>j = i - 2..i. map snd series ! j) / real (min 3 (i + 1)))"
    by (intro rolling_mean_nth) simp
  also have "(\<Sum>j = i - 2..i. map snd series ! j) = (\<Sum>j = i - 2..i. snd (series ! j))"
    using \<open>i < length series\<close> by (intro sum.cong) simp_all
  finally show "rolling_mean 3 1 (map snd series) ! i
            = Num ((\<Sum>j = i - 2..i. snd (series ! j)) / real (min 3 (i + 1)))" .
next
  show five: "last (rolling_mean 3 1 [4, 6, 5]) = Num 5"
    by (simp add: rolling_mean_def pd_mean_def pd_sum_def upt_rec numeral_3_eq_3)
  have "map snd (simple_moving_average_forecast [(d0, 4), (d1, 6), (d2, 5)] days_out 3)
        = replicate days_out (last (rolling_mean 3 1 (map snd [(d0, 4), (d1, 6), (d2, 5)])))"
    by (simp add: forecast_rows comp_def map_replicate_const)
  with five show "map snd (simple_moving_average_forecast [(d0, 4), (d1, 6), (d2, 5)] days_out 3)
        = replicate days_out (Num 5)"
    by simp
qed

theorem sma_forecast_flat_witness:
  "[(0, 4), (86400000000000, 6), (172800000000000, 5)] \<noteq> ([] :: real series)
   \<and> simple_moving_average_forecast [(0, 4), (86400000000000, 6), (172800000000000, 5)] 2 3
      = [(259200000000000, Num 5), (345600000000000, Num 5)]"
proof -
  have ne: "[(0, 4), (86400000000000, 6), (172800000000000, 5)] \<noteq> ([] :: real series)" by simp
  have l: "last (rolling_mean 3 1 [4, 6, 5]) = Num 5"
    using sma_forecast_flat [of "[]" 0] by simp
  from sma_forecast_flat [of "[(0, 4), (86400000000000, 6), (172800000000000, 5)]" 2] ne l
  show ?thesis by (simp add: ns_per_day_def upt_rec)
qed

text \<open>
  Claim C8. When the import of the forecasting library fails, the flag is false, the
  forecast method cannot be selected, and the forecast panel shows the moving-average
  forecast (or the note that there is no daily series): no error reaches the caller.
\<close>

theorem prophet_absent_falls_back:
  "\<not> PROPHET_AVAILABLE (Inl e)
   \<and> \<not> use_prophet (PROPHET_AVAILABLE (Inl e)) checkbox
   \<and> forecast_panel (PROPHET_AVAILABLE (Inl e)) checkbox lib daily days_out
       = (if daily = [] then No_daily_series
          else MA_plot (simple_moving_average_forecast (sort_values fst daily) days_out 3))"
  by (simp add: PROPHET_AVAILABLE_def use_prophet_def forecast_panel_def)

theorem prophet_absent_falls_back_witness:
  "forecast_panel (PROPHET_AVAILABLE (Inl ''No module named prophet'' ))
      True
      (\<lambda>series days_out. (Inl ''unused'' :: string + real series))
      [(0, 4), (86400000000000, 6), (172800000000000, 5)] 2
   = MA_plot [(259200000000000, Num 5), (345600000000000, Num 5)]"
proof -
  have "simple_moving_average_forecast [(0, 4), (86400000000000, 6), (172800000000000, 5)] 2 3
      = [(259200000000000, Num 5), (345600000000000, Num 5)]"
    by (simp add: simple_moving_average_forecast_def rolling_mean_def pd_mean_def pd_sum_def
        date_range_def ns_per_day_def upt_rec numeral_3_eq_3 numeral_2_eq_2 Let_def)
  with prophet_absent_falls_back [of "''No module named prophet''" True
      "\<lambda>series days_out. Inl ''unused''" "[(0, 4), (86400000000000, 6), (172800000000000, 5)]" 2,
      THEN conjunct2, THEN conjunct2]
  show ?thesis by (simp add: sort_values_def)
qed

subsection \<open>The guarded geo query\<close>

lemma run_queries_failure:
  "run_queries db ps out = Inl (e, out') \<Longrightarrow> \<exists>p\<in>set ps. db p = Inl e"
  by (induction ps arbitrary: out) (auto split: sum.splits)

lemma run_queries_success:
  "\<forall>p\<in>set ps. \<exists>r. db p = Inr r \<Longrightarrow> \<exists>out'. run_queries db ps out = Inr out'"
  by (induction ps arbitrary: out) (auto split: sum.splits)

text \<open>
  Claim C9. When the nearest-provider query fails, as it does without the spatial index,
  the failure is caught where the query is made: the script prints the message that
  names the required 2dsphere index and the error, and ends normally. A failure that
  ends the script comes from one of the other queries, never from this one; when the
  other queries succeed the script completes with the message at the end of its output.
\<close>

theorem geo_failure_caught:
  assumes "db pipeline_geo = Inl e"
  shows "(\<forall>out. result_geo db out
            = out @ [Heading pipeline_geo, Message ''GeoNear requires 2dsphere index!'', Error_line e])
    \<and> (\<forall>e' out'. aggregation_queries db = Inl (e', out') \<longrightarrow> (\<exists>p. p \<noteq> pipeline_geo \<and> db p = Inl e'))
    \<and> ((\<forall>p. p \<noteq> pipeline_geo \<longrightarrow> (\<exists>r. db p = Inr r)) \<longrightarrow>
           (\<exists>printed. aggregation_queries db
              = Inr (printed @ [Heading pipeline_geo, Message ''GeoNear requires 2dsphere index!'', Error_line e])))"
proof (intro conjI allI impI)
  show geo: "result_geo db out
           = out @ [Heading pipeline_geo, Message ''GeoNear requires 2dsphere index!'', Error_line e]" for out
    using assms by (simp add: result_geo_def)
  show "\<exists>p. p \<noteq> pipeline_geo \<and> db p = Inl e'" if "aggregation_queries db = Inl (e', out')" for e' out'
  proof -
    from that have "run_queries db [pipeline_total, pipeline_asset, pipeline_avg, pipeline_daily,
              pipeline_spike, pipeline_emission] [] = Inl (e', out')"
      by (simp add: aggregation_queries_def split: sum.splits)
    from run_queries_failure [OF this] show ?thesis by auto
  qed
  show "\<exists>printed. aggregation_queries db
              = Inr (printed @ [Heading pipeline_geo, Message ''GeoNear requires 2dsphere index!'', Error_line e])"
    if "\<forall>p. p \<noteq> pipeline_geo \<longrightarrow> (\<exists>r. db p = Inr r)"
  proof -
    from that have "\<forall>p\<in>set [pipeline_total, pipeline_asset, pipeline_avg, pipeline_daily,
              pipeline_spike, pipeline_emission]. \<exists>r. db p = Inr r"
      by simp
    from run_queries_success [OF this, of "[]"] obtain printed
      where "run_queries db [pipeline_total, pipeline_asset, pipeline_avg, pipeline_daily,
              pipeline_spike, pipeline_emission] [] = Inr printed" ..
    then have "aggregation_queries db = Inr (result_geo db printed)"
      by (simp add: aggregation_queries_def)
    then show ?thesis unfolding geo by blast
  qed
qed

theorem geo_failure_caught_witness:
  "store_without_index pipeline_geo = Inl ''no geo index''
   \<and> aggregation_queries store_without_index
     = Inr [Heading pipeline_total, Result 0, Heading pipeline_asset, Result 0,
            Heading pipeline_avg, Result 0, Heading pipeline_daily, Result 0,
            Heading pipeline_spike, Result 0, Heading pipeline_emission, Result 0,
            Heading pipeline_geo, Message ''GeoNear requires 2dsphere index!'',
            Error_line ''no geo index'']"
proof -
  have fails: "store_without_index pipeline_geo = Inl ''no geo index''"
    by (simp add: store_without_index_def)
  have "run_queries store_without_index
          [pipeline_total, pipeline_asset, pipeline_avg, pipeline_daily,
           pipeline_spike, pipeline_emission] []
        = Inr [Heading pipeline_total, Result 0, Heading pipeline_asset, Result 0,
            Heading pipeline_avg, Result 0, Heading pipeline_daily, Result 0,
            Heading pipeline_spike, Result 0, Heading pipeline_emission, Result 0]"
    by (simp add: store_without_index_def)
  with geo_failure_caught [of store_without_index, OF fails] fails show ?thesis
    by (simp add: aggregation_queries_def)
qed

end
